theory Spec2Isabelle
  imports Main "HOL-Library.AList"
begin

section \<open>Python values and dictionaries\<close>

text \<open>
  The module \<^verbatim>\<open>tsfresh/feature_extraction/settings.py\<close> builds dictionaries from
  calculator names to parameter grids and decodes column names back into such
  dictionaries. A Python \<^verbatim>\<open>dict\<close> keeps its keys in insertion order and has no
  duplicate keys, so it is an association list here: \<^const>\<open>AList.update\<close> is
  \<^verbatim>\<open>d[k] = v\<close> (replace in place, or append a new key at the end),
  \<^const>\<open>AList.delete\<close> is \<^verbatim>\<open>del d[k]\<close> and \<^const>\<open>map_of\<close> is the lookup.
\<close>

text \<open>
  Float parameter values are kept as the expressions the source writes: a decimal literal
  \<open>FDec m e\<close> stands for the literal with digits \<open>m\<close> and \<open>e\<close> decimals (\<^verbatim>\<open>.05\<close> is
  \<open>FDec 5 2\<close>), \<open>FTimes r x\<close> for the product \<^verbatim>\<open>r * x\<close> of an integer and a float,
  and the three numpy constants by name. No IEEE arithmetic is evaluated.
\<close>

datatype pyfloat = FDec int nat | FTimes int pyfloat | FNaN | FPosInf | FNegInf

datatype pval = PInt int | PFloat pyfloat | PBool bool | PStr string | PTuple "pval list"

type_synonym param_dict = "(string \<times> pval) list"

text \<open>The value a settings object holds for a calculator: \<^verbatim>\<open>None\<close> or a list of parameter dicts.\<close>

type_synonym fc_value = "param_dict list option"

type_synonym fc_parameters = "(string \<times> fc_value) list"

type_synonym kind_to_fc_parameters = "(string \<times> fc_parameters) list"

text \<open>An entry of the \<^verbatim>\<open>columns\<close> argument: a string, or some object that is not a string.\<close>

datatype column = Str string | NonStr int

datatype error = TypeError column | ValueError string | AttributeError string | IndexError

definition keys :: "('k \<times> 'v) list \<Rightarrow> 'k set" where
  "keys d = set (map fst d)"

text \<open>\<^verbatim>\<open>range(a, b)\<close> over Python integers.\<close>

definition range_py :: "nat \<Rightarrow> nat \<Rightarrow> int list" where
  "range_py a b = map int [a..<b]"

section \<open>The feature calculator module\<close>

text \<open>
  \<^verbatim>\<open>tsfresh.feature_extraction.feature_calculators\<close> is read by reflection only. An
  attribute of the module is recorded by what the settings code asks of it:
  \<^verbatim>\<open>callable(func)\<close>, the attributes \<^verbatim>\<open>fctype\<close>, \<^verbatim>\<open>minimal\<close>, \<^verbatim>\<open>high_comp_cost\<close>,
  \<^verbatim>\<open>input\<close> and \<^verbatim>\<open>index_type\<close> (\<open>None\<close> where \<^verbatim>\<open>hasattr\<close> is false; for the two flags
  the value is its truthiness) and \<^verbatim>\<open>len(getfullargspec(func).args)\<close>. The module is
  the list of its \<^verbatim>\<open>__dict__.items()\<close>, in order.
\<close>

datatype index_class = DatetimeIndex | OtherIndex string

record attr =
  is_callable :: bool
  fctype :: "string option"
  n_args :: nat
  minimal :: "bool option"
  high_comp_cost :: "bool option"
  input :: "string option"
  index_type :: "index_class option"

type_synonym module = "(string \<times> attr) list"

text \<open>\<^verbatim>\<open>hasattr(feature_calculators, name)\<close>.\<close>

definition hasattr_module :: "module \<Rightarrow> string \<Rightarrow> bool" where
  "hasattr_module feature_calculators name = (name \<in> set (map fst feature_calculators))"

section \<open>Splitting a column name\<close>

text \<open>
  \<^verbatim>\<open>col.split('__')\<close>: the string is scanned from the left and cut at every occurrence of
  the separator found there, occurrences not overlapping. The result always has at least
  one field.
\<close>

definition cons_first :: "char \<Rightarrow> string list \<Rightarrow> string list" where
  "cons_first c ps = (case ps of [] \<Rightarrow> [[c]] | p # ps' \<Rightarrow> (c # p) # ps')"

fun split_py :: "string \<Rightarrow> string list" where
  "split_py [] = [[]]"
| "split_py [c] = [[c]]"
| "split_py (c # d # rest) =
     (if c = CHR ''_'' \<and> d = CHR ''_'' then [] # split_py rest
      else cons_first c (split_py (d # rest)))"

section \<open>from_columns\<close>

text \<open>
  \<^verbatim>\<open>get_config_from_string\<close> lives in \<^verbatim>\<open>tsfresh.utilities.string_manipulation\<close>; it is a
  parameter \<open>codec\<close> of the model. It receives all the fields of the column name and
  returns \<^verbatim>\<open>None\<close> or a parameter dict, or raises.
\<close>

type_synonym codec = "string list \<Rightarrow> error + param_dict option"

text \<open>\<^verbatim>\<open>if config:\<close> is false for \<^verbatim>\<open>None\<close> and for the empty dict.\<close>

definition truthy :: "param_dict option \<Rightarrow> bool" where
  "truthy config = (case config of None \<Rightarrow> False | Some d \<Rightarrow> d \<noteq> [])"

text \<open>
  The assignments at the end of the loop body: \<open>fc\<close> is \<^verbatim>\<open>kind_to_fc_parameters[kind]\<close>,
  which exists by then. Appending to an entry that holds \<^verbatim>\<open>None\<close> raises.
\<close>

definition store_config ::
  "string \<Rightarrow> param_dict option \<Rightarrow> fc_parameters \<Rightarrow> error + fc_parameters" where
  "store_config feature_name config fc =
     (if truthy config then
        (case map_of fc feature_name of
           Some (Some configs) \<Rightarrow> Inr (AList.update feature_name (Some (configs @ [the config])) fc)
         | Some None \<Rightarrow> Inl (AttributeError ''append'')
         | None \<Rightarrow> Inr (AList.update feature_name (Some [the config]) fc))
      else Inr (AList.update feature_name None fc))"

text \<open>One pass of the loop body of \<^verbatim>\<open>from_columns\<close> on the dictionary built so far.\<close>

definition from_columns_body ::
  "module \<Rightarrow> codec \<Rightarrow> column list \<Rightarrow> column \<Rightarrow> kind_to_fc_parameters
     \<Rightarrow> error + kind_to_fc_parameters" where
  "from_columns_body feature_calculators get_config_from_string columns_to_ignore col d =
     (if col \<in> set columns_to_ignore then Inr d
      else case col of
        NonStr _ \<Rightarrow> Inl (TypeError col)
      | Str s \<Rightarrow>
         (case split_py s of
            [] \<Rightarrow> Inl IndexError
          | [_] \<Rightarrow> Inl (ValueError (''Splitting of columnname '' @ s @ '' resulted in only one part.''))
          | kind # feature_name # _ \<Rightarrow>
             (let d1 = (if kind \<notin> keys d then AList.update kind [] d else d);
                  fc = (case map_of d1 kind of None \<Rightarrow> [] | Some fc \<Rightarrow> fc)
              in if \<not> hasattr_module feature_calculators feature_name
                 then Inl (ValueError (''Unknown feature name '' @ feature_name))
                 else case get_config_from_string (split_py s) of
                        Inl e \<Rightarrow> Inl e
                      | Inr config \<Rightarrow>
                         (case store_config feature_name config fc of
                            Inl e \<Rightarrow> Inl e
                          | Inr fc' \<Rightarrow> Inr (AList.update kind fc' d1)))))"

fun from_columns_loop ::
  "module \<Rightarrow> codec \<Rightarrow> column list \<Rightarrow> column list \<Rightarrow> kind_to_fc_parameters
     \<Rightarrow> error + kind_to_fc_parameters" where
  "from_columns_loop fcm codec ign [] d = Inr d"
| "from_columns_loop fcm codec ign (col # cols) d =
     (case from_columns_body fcm codec ign col d of
        Inl e \<Rightarrow> Inl e
      | Inr d' \<Rightarrow> from_columns_loop fcm codec ign cols d')"

text \<open>\<^verbatim>\<open>if columns_to_ignore is None: columns_to_ignore = []\<close>.\<close>

definition ignore_list :: "column list option \<Rightarrow> column list" where
  "ignore_list columns_to_ignore = (case columns_to_ignore of None \<Rightarrow> [] | Some ign \<Rightarrow> ign)"

definition from_columns ::
  "module \<Rightarrow> codec \<Rightarrow> column list \<Rightarrow> column list option
     \<Rightarrow> error + kind_to_fc_parameters" where
  "from_columns feature_calculators get_config_from_string columns columns_to_ignore =
     from_columns_loop feature_calculators get_config_from_string
       (ignore_list columns_to_ignore) columns []"

section \<open>The settings classes\<close>

text \<open>The literal passed to \<^verbatim>\<open>name_to_param.update\<close> in \<^verbatim>\<open>ComprehensiveFCParameters.__init__\<close>.\<close>

definition quantile_grid :: "pyfloat list" where
  "quantile_grid = [FDec 1 1, FDec 2 1, FDec 3 1, FDec 4 1, FDec 6 1, FDec 7 1, FDec 8 1, FDec 9 1]"

definition overlay :: fc_parameters where
  "overlay =
    [(''time_reversal_asymmetry_statistic'', Some (map (\<lambda>lag. [(''lag'', PInt lag)]) (range_py 1 4))),
     (''symmetry_looking'', Some (map (\<lambda>r. [(''r'', PFloat (FTimes r (FDec 5 2)))]) (range_py 0 20))),
     (''large_standard_deviation'', Some (map (\<lambda>r. [(''r'', PFloat (FTimes r (FDec 5 2)))]) (range_py 0 10))),
     (''quantile'', Some (map (\<lambda>q. [(''q'', PFloat q)]) quantile_grid)),
     (''autocorrelation'', Some (map (\<lambda>lag. [(''lag'', PInt lag)]) (range_py 0 10))),
     (''number_cwt_peaks'', Some (map (\<lambda>n. [(''n'', PInt n)]) [1, 5])),
     (''number_peaks'', Some (map (\<lambda>n. [(''n'', PInt n)]) [1, 3, 5])),
     (''large_number_of_peaks'', Some (map (\<lambda>n. [(''n'', PInt n)]) [1, 3, 5])),
     (''binned_entropy'', Some (map (\<lambda>max_bins. [(''max_bins'', PInt max_bins)]) [10])),
     (''index_mass_quantile'', Some (map (\<lambda>q. [(''q'', PFloat q)]) quantile_grid)),
     (''cwt_coefficients'',
        Some (concat (map (\<lambda>width. concat (map (\<lambda>coeff. map (\<lambda>w.
                [(''widths'', width), (''coeff'', PInt coeff), (''w'', PInt w)])
              [2, 5, 10, 20]) (range_py 0 15)))
           [PTuple [PInt 2, PInt 5, PInt 10, PInt 20]]))),
     (''spkt_welch_density'', Some (map (\<lambda>coeff. [(''coeff'', PInt coeff)]) [2, 5, 8])),
     (''ar_coefficient'',
        Some (concat (map (\<lambda>coeff. map (\<lambda>k. [(''coeff'', PInt coeff), (''k'', PInt k)]) [10])
           (range_py 0 5)))),
     (''mean_abs_change_quantiles'',
        Some (concat (map (\<lambda>ql. map (\<lambda>qh. [(''ql'', PFloat ql), (''qh'', PFloat qh)])
              [FDec 2 1, FDec 4 1, FDec 6 1, FDec 8 1, FDec 1 0])
           [FDec 0 0, FDec 2 1, FDec 4 1, FDec 6 1, FDec 8 1]))),
     (''fft_coefficient'', Some (map (\<lambda>coeff. [(''coeff'', PInt coeff)]) (range_py 0 10))),
     (''value_count'',
        Some (map (\<lambda>value. [(''value'', value)])
           [PInt 0, PInt 1, PFloat FNaN, PFloat FPosInf, PFloat FNegInf])),
     (''range_count'', Some [[(''min'', PInt (- 1)), (''max'', PInt 1)]]),
     (''approximate_entropy'',
        Some (map (\<lambda>r. [(''m'', PInt 2), (''r'', PFloat r)])
           [FDec 1 1, FDec 3 1, FDec 5 1, FDec 7 1, FDec 9 1]))]"

text \<open>\<^verbatim>\<open>d.update(other)\<close>: the entries of \<open>other\<close> are stored one after the other.\<close>

fun dict_update :: "('k \<times> 'v) list \<Rightarrow> ('k \<times> 'v) list \<Rightarrow> ('k \<times> 'v) list" where
  "dict_update d [] = d"
| "dict_update d ((k, v) # other) = dict_update (AList.update k v d) other"

text \<open>The first loop of \<^verbatim>\<open>ComprehensiveFCParameters.__init__\<close>.\<close>

fun parameterless :: "module \<Rightarrow> fc_parameters \<Rightarrow> fc_parameters" where
  "parameterless [] name_to_param = name_to_param"
| "parameterless ((name, func) # rest) name_to_param =
     parameterless rest
       (if is_callable func \<and> fctype func \<noteq> None \<and> n_args func = 1
        then AList.update name None name_to_param else name_to_param)"

definition ComprehensiveFCParameters :: "module \<Rightarrow> fc_parameters" where
  "ComprehensiveFCParameters feature_calculators =
     dict_update (parameterless feature_calculators []) overlay"

text \<open>
  The four subclasses run the same loop over the module with different conditions:
  \<^verbatim>\<open>if fname in self and cond(f): del self[fname]\<close>.
\<close>

fun del_loop :: "(attr \<Rightarrow> bool) \<Rightarrow> module \<Rightarrow> fc_parameters \<Rightarrow> fc_parameters" where
  "del_loop cond [] self = self"
| "del_loop cond ((fname, f) # rest) self =
     del_loop cond rest
       (if fname \<in> keys self \<and> cond f then AList.delete fname self else self)"

definition MinimalFCParameters :: "module \<Rightarrow> fc_parameters" where
  "MinimalFCParameters feature_calculators =
     del_loop (\<lambda>f. minimal f = None \<or> minimal f = Some False) feature_calculators
       (ComprehensiveFCParameters feature_calculators)"

definition EfficientFCParameters :: "module \<Rightarrow> fc_parameters" where
  "EfficientFCParameters feature_calculators =
     del_loop (\<lambda>f. high_comp_cost f \<noteq> None) feature_calculators
       (ComprehensiveFCParameters feature_calculators)"

definition IndexBasedFCParameters :: "module \<Rightarrow> fc_parameters" where
  "IndexBasedFCParameters feature_calculators =
     del_loop (\<lambda>f. input f \<noteq> Some ''pd.Series'') feature_calculators
       (ComprehensiveFCParameters feature_calculators)"

definition TimeBasedFCParameters :: "module \<Rightarrow> fc_parameters" where
  "TimeBasedFCParameters feature_calculators =
     del_loop (\<lambda>f. index_type f \<noteq> Some DatetimeIndex) feature_calculators
       (ComprehensiveFCParameters feature_calculators)"

section \<open>The naming convention and the parameter codec\<close>

text \<open>
  Modelled from the spec: \<^verbatim>\<open>get_config_from_string\<close> of
  \<^verbatim>\<open>tsfresh.utilities.string_manipulation\<close> is not among the sources. By the spec it is
  given the split fields of the name, decodes those beyond kind and calculator, one
  \<^verbatim>\<open>name_value\<close> token each, into one dict from parameter name to typed value, and
  returns a falsy result when no parameters are encoded. The token is cut at its last
  underscore (parameter names such as \<^verbatim>\<open>max_bins\<close> have underscores of their own) and the
  conversion of the value text is the parameter \<open>coerce\<close>.
\<close>

fun rsplit_underscore :: "string \<Rightarrow> (string \<times> string) option" where
  "rsplit_underscore [] = None"
| "rsplit_underscore (c # cs) =
     (case rsplit_underscore cs of
        Some (name, v) \<Rightarrow> Some (c # name, v)
      | None \<Rightarrow> if c = CHR ''_'' then Some ([], cs) else None)"

fun decode_tokens :: "(string \<Rightarrow> error + pval) \<Rightarrow> string list \<Rightarrow> param_dict \<Rightarrow> error + param_dict" where
  "decode_tokens coerce [] config = Inr config"
| "decode_tokens coerce (tok # toks) config =
     (case rsplit_underscore tok of
        None \<Rightarrow> Inl IndexError
      | Some (name, text) \<Rightarrow>
         (case coerce text of
            Inl e \<Rightarrow> Inl e
          | Inr v \<Rightarrow> decode_tokens coerce toks (AList.update name v config)))"

definition get_config_from_string :: "(string \<Rightarrow> error + pval) \<Rightarrow> codec" where
  "get_config_from_string coerce parts =
     (case drop 2 parts of
        [] \<Rightarrow> Inr None
      | toks \<Rightarrow> (case decode_tokens coerce toks [] of Inl e \<Rightarrow> Inl e | Inr config \<Rightarrow> Inr (Some config)))"

text \<open>
  Modelled from the spec: the string to number and boolean coercion of the codec, for
  the value texts used below: \<^verbatim>\<open>True\<close>, \<^verbatim>\<open>False\<close>, an unsigned integer, and an unsigned
  decimal, which is kept as its digits and its number of decimals.
\<close>

definition digit_of :: "char \<Rightarrow> nat option" where
  "digit_of c = map_of (zip ''0123456789'' [0, 1, 2, 3, 4, 5, 6, 7, 8, 9]) c"

fun digits_value :: "string \<Rightarrow> nat \<Rightarrow> nat option" where
  "digits_value [] n = Some n"
| "digits_value (c # cs) n =
     (case digit_of c of None \<Rightarrow> None | Some k \<Rightarrow> digits_value cs (10 * n + k))"

definition coerce_literal :: "string \<Rightarrow> error + pval" where
  "coerce_literal text =
     (if text = ''True'' then Inr (PBool True)
      else if text = ''False'' then Inr (PBool False)
      else let whole = takeWhile (\<lambda>c. c \<noteq> CHR ''.'') text;
               rest = dropWhile (\<lambda>c. c \<noteq> CHR ''.'') text
           in case (rest, digits_value (whole @ drop 1 rest) 0) of
                ([], Some n) \<Rightarrow> if whole = [] then Inl (ValueError text) else Inr (PInt (int n))
              | (_ # decimals, Some n) \<Rightarrow>
                  if whole @ decimals = [] then Inl (ValueError text)
                  else Inr (PFloat (FDec (int n) (length decimals)))
              | (_, None) \<Rightarrow> Inl (ValueError text))"



text \<open>The entry of a (kind, calculator) pair in the result of \<^verbatim>\<open>from_columns\<close>, if any.\<close>

definition lookup :: "kind_to_fc_parameters \<Rightarrow> string \<Rightarrow> string \<Rightarrow> fc_value option" where
  "lookup d kind feature_name =
     (case map_of d kind of None \<Rightarrow> None | Some fc \<Rightarrow> map_of fc feature_name)"

text \<open>
  The dictionary held for a kind, empty where the kind is not a key yet.
\<close>

definition entries :: "kind_to_fc_parameters \<Rightarrow> string \<Rightarrow> fc_parameters" where
  "entries d kind = (case map_of d kind of None \<Rightarrow> [] | Some fc \<Rightarrow> fc)"

text \<open>
  A column belongs to a (kind, calculator) pair when it is not ignored and is a string
  whose first two fields are the kind and the calculator name; \<open>decoded\<close> is the
  parameter dict the codec gives for it, the empty dict standing for every falsy or
  failed result.
\<close>

definition of_pair :: "column list \<Rightarrow> string \<Rightarrow> string \<Rightarrow> column \<Rightarrow> bool" where
  "of_pair ign kind feature_name col =
     (col \<notin> set ign \<and>
      (case col of Str s \<Rightarrow> take 2 (split_py s) = [kind, feature_name] | NonStr _ \<Rightarrow> False))"

definition decoded :: "codec \<Rightarrow> column \<Rightarrow> param_dict" where
  "decoded codec col =
     (case col of
        Str s \<Rightarrow> (case codec (split_py s) of Inr (Some config) \<Rightarrow> config | _ \<Rightarrow> [])
      | NonStr _ \<Rightarrow> [])"

text \<open>
  A field that the separator leaves whole when it is followed by the separator: it has no
  two underscores in a row and does not end with an underscore.
\<close>

fun has_dunder :: "string \<Rightarrow> bool" where
  "has_dunder (c # d # rest) = ((c = CHR ''_'' \<and> d = CHR ''_'') \<or> has_dunder (d # rest))"
| "has_dunder _ = False"

definition plain_field :: "string \<Rightarrow> bool" where
  "plain_field s = (\<not> has_dunder s \<and> (s = [] \<or> last s \<noteq> CHR ''_''))"



text \<open>
  Python's \<^verbatim>\<open>str\<close> on the parameter values that are integers or booleans; no other
  value is rendered here, the empty text stands for it.
\<close>

definition digit_char :: "nat \<Rightarrow> char" where
  "digit_char d = ''0123456789'' ! (d mod 10)"

fun str_nat :: "nat \<Rightarrow> string" where
  "str_nat n = (if n < 10 then [digit_char n] else str_nat (n div 10) @ [digit_char (n mod 10)])"

declare str_nat.simps [simp del]

definition str_py :: "pval \<Rightarrow> string" where
  "str_py v =
     (case v of
        PInt i \<Rightarrow> (if i < 0 then CHR ''-'' # str_nat (nat (- i)) else str_nat (nat i))
      | PBool b \<Rightarrow> (if b then ''True'' else ''False'')
      | _ \<Rightarrow> [])"


text \<open>
  What the round trip asks of the parameters of a settings object. A parameter name is a
  plain field, and the rendering of the value is not empty, has no underscore (the token
  is cut at its last underscore) and is coerced back to the value. A calculator name is
  an attribute of the module and a plain field; its config is \<^verbatim>\<open>None\<close>, or a list that
  is not empty, of parameter dicts that are not empty and whose parameter names are
  distinct, as the keys of a dict are.
\<close>

definition param_ok :: "(string \<Rightarrow> error + pval) \<Rightarrow> (pval \<Rightarrow> string) \<Rightarrow> string \<times> pval \<Rightarrow> bool" where
  "param_ok coerce str p =
     (case p of (name, v) \<Rightarrow>
        plain_field name \<and> str v \<noteq> [] \<and> CHR ''_'' \<notin> set (str v) \<and> coerce (str v) = Inr v)"


text \<open>
  A small module for the examples: the attribute \<^verbatim>\<open>__name__\<close> that every module has, an
  imported helper, and five calculators with different capability attributes.
\<close>

definition plain_attr :: attr where
  "plain_attr = \<lparr>is_callable = False, fctype = None, n_args = 0, minimal = None,
     high_comp_cost = None, input = None, index_type = None\<rparr>"

definition example_module :: module where
  "example_module =
     [(''__name__'', plain_attr),
      (''np'', plain_attr),
      (''mean'', plain_attr\<lparr>is_callable := True, fctype := Some ''simple'', n_args := 1,
          minimal := Some True\<rparr>),
      (''quantile'', plain_attr\<lparr>is_callable := True, fctype := Some ''simple'', n_args := 2\<rparr>),
      (''sample_entropy'', plain_attr\<lparr>is_callable := True, fctype := Some ''simple'', n_args := 1,
          high_comp_cost := Some True\<rparr>),
      (''number_peaks'', plain_attr\<lparr>is_callable := True, fctype := Some ''simple'', n_args := 2\<rparr>),
      (''linear_trend_timewise'', plain_attr\<lparr>is_callable := True, fctype := Some ''combiner'',
          n_args := 1, input := Some ''pd.Series'', index_type := Some DatetimeIndex\<rparr>)]"

section \<open>Properties of the settings classes\<close>

subsection \<open>Dictionaries and the two loops\<close>

lemma keys_update: "keys (AList.update k v d) = insert k (keys d)"
  by (auto simp: keys_def update_keys)

lemma del_step_filter:
  "(if fname \<in> keys self \<and> cond f then AList.delete fname self else self)
      = filter (\<lambda>(name, v). \<not> (name = fname \<and> cond f)) self"
proof (cases "cond f")
  case True
  have "fname \<notin> keys self \<Longrightarrow> filter (\<lambda>(name, v). name \<noteq> fname) self = self"
    by (rule filter_True) (force simp: keys_def)
  moreover have "AList.delete fname self = filter (\<lambda>(name, v). name \<noteq> fname) self"
    by (auto simp: AList.delete_eq intro!: filter_cong)
  ultimately show ?thesis using True by auto
next
  case False
  then show ?thesis by simp
qed

lemma del_loop_filter:
  "del_loop cond m self = filter (\<lambda>(name, v). \<not> (\<exists>f. (name, f) \<in> set m \<and> cond f)) self"
proof (induction m arbitrary: self)
  case Nil
  then show ?case by simp
next
  case (Cons a m)
  obtain fname f where a: "a = (fname, f)" by (cases a)
  have "del_loop cond (a # m) self =
      filter (\<lambda>(name, v). \<not> (\<exists>f. (name, f) \<in> set m \<and> cond f))
        (filter (\<lambda>(name, v). \<not> (name = fname \<and> cond f)) self)"
    unfolding a del_loop.simps del_step_filter Cons.IH ..
  also have "\<dots> = filter (\<lambda>(name, v). \<not> (\<exists>f. (name, f) \<in> set (a # m) \<and> cond f)) self"
    unfolding filter_filter a by (rule filter_cong) auto
  finally show ?case .
qed

lemma keys_filter: "keys (filter (\<lambda>(name, v). P name) d) = {name \<in> keys d. P name}"
  by (force simp: keys_def)

lemma map_of_filter_key:
  "map_of (filter (\<lambda>(name, v). P name) d) name = (if P name then map_of d name else None)"
  by (induction d) auto

lemma keys_dict_update: "keys (dict_update d other) = keys d \<union> keys other"
proof (induction d other rule: dict_update.induct)
  case (1 d)
  then show ?case by (simp add: keys_def)
next
  case (2 d k v other)
  have "keys ((k, v) # other) = insert k (keys other)" by (simp add: keys_def)
  with 2 show ?case by (simp add: keys_update)
qed

lemma map_of_dict_update:
  "distinct (map fst other) \<Longrightarrow>
   map_of (dict_update d other) k = (case map_of other k of Some v \<Rightarrow> Some v | None \<Rightarrow> map_of d k)"
proof (induction d other rule: dict_update.induct)
  case (1 d)
  then show ?case by simp
next
  case (2 d k' v other)
  then have none: "map_of other k' = None" and dist: "distinct (map fst other)"
    by (simp_all add: map_of_eq_None_iff)
  show ?case
  proof (cases "k = k'")
    case True
    then show ?thesis using "2.IH"[OF dist] none by (simp add: update_conv')
  next
    case False
    then show ?thesis using "2.IH"[OF dist] by (simp add: update_conv' split: option.splits)
  qed
qed

lemma keys_parameterless:
  "keys (parameterless m d) =
     keys d \<union> {name. \<exists>func. (name, func) \<in> set m \<and> is_callable func \<and> fctype func \<noteq> None \<and> n_args func = 1}"
proof (induction m arbitrary: d)
  case Nil
  then show ?case by simp
next
  case (Cons a m)
  obtain name func where a: "a = (name, func)" by (cases a)
  show ?case unfolding a parameterless.simps Cons.IH
    by (cases "is_callable func \<and> fctype func \<noteq> None \<and> n_args func = 1") (auto simp: keys_update)
qed

lemma map_of_parameterless:
  "map_of (parameterless m d) name =
     (if \<exists>func. (name, func) \<in> set m \<and> is_callable func \<and> fctype func \<noteq> None \<and> n_args func = 1
      then Some None else map_of d name)"
proof (induction m arbitrary: d)
  case Nil
  then show ?case by simp
next
  case (Cons a m)
  obtain name' func where a: "a = (name', func)" by (cases a)
  show ?case unfolding a parameterless.simps Cons.IH
    by (cases "is_callable func \<and> fctype func \<noteq> None \<and> n_args func = 1") (auto simp: update_conv')
qed

lemma overlay_keys:
  "map fst overlay =
    [''time_reversal_asymmetry_statistic'', ''symmetry_looking'', ''large_standard_deviation'',
     ''quantile'', ''autocorrelation'', ''number_cwt_peaks'', ''number_peaks'',
     ''large_number_of_peaks'', ''binned_entropy'', ''index_mass_quantile'', ''cwt_coefficients'',
     ''spkt_welch_density'', ''ar_coefficient'', ''mean_abs_change_quantiles'', ''fft_coefficient'',
     ''value_count'', ''range_count'', ''approximate_entropy'']"
  by (simp add: overlay_def)

lemma distinct_overlay: "distinct (map fst overlay)"
  unfolding overlay_keys by simp

lemma keys_del_loop_subset: "keys (del_loop cond m self) \<subseteq> keys self"
  unfolding del_loop_filter keys_filter by blast

lemma registered_unique:
  assumes "distinct (map fst m)" and "(name, f) \<in> set m"
  shows "(\<exists>f'. (name, f') \<in> set m \<and> P f') \<longleftrightarrow> P f"
  using assms by (auto dest: eq_key_imp_eq_value)

subsection \<open>The comprehensive set\<close>

text \<open>
  Claim C8. Every attribute of the module that is callable, has an \<^verbatim>\<open>fctype\<close> attribute
  (an empty tag included, so a non-empty one in particular) and takes exactly one argument
  is in the comprehensive set with value \<^verbatim>\<open>None\<close>, and the hand-written table is merged
  over these entries: a name of the table always holds the table's grid. No other name
  is a key.
\<close>

theorem comprehensive_construction:
  "map_of (ComprehensiveFCParameters fcm) name =
     (case map_of overlay name of
        Some grid \<Rightarrow> Some grid
      | None \<Rightarrow>
          if \<exists>func. (name, func) \<in> set fcm \<and> is_callable func \<and> fctype func \<noteq> None \<and> n_args func = 1
          then Some None else None)"
  unfolding ComprehensiveFCParameters_def map_of_dict_update [OF distinct_overlay]
    map_of_parameterless
  by (auto split: option.splits)

theorem comprehensive_construction_witness:
  "map_of (ComprehensiveFCParameters example_module) ''mean'' = Some None \<and>
   map_of (ComprehensiveFCParameters example_module) ''np'' = None \<and>
   map_of (ComprehensiveFCParameters example_module) ''number_peaks'' =
     Some (Some [[(''n'', PInt 1)], [(''n'', PInt 3)], [(''n'', PInt 5)]])"
proof -
  have o1: "map_of overlay ''mean'' = None" by code_simp
  have o2: "map_of overlay ''np'' = None" by code_simp
  have o3: "map_of overlay ''number_peaks'' =
     Some (Some [[(''n'', PInt 1)], [(''n'', PInt 3)], [(''n'', PInt 5)]])" by code_simp
  show ?thesis
    using comprehensive_construction [of example_module "''mean''"]
      comprehensive_construction [of example_module "''np''"]
      comprehensive_construction [of example_module "''number_peaks''"] o1 o2 o3
    by (auto simp: example_module_def plain_attr_def)
qed

subsection \<open>The derived variants\<close>

text \<open>
  Claim C5. The keys of the minimal, efficient, index-based and time-based variants are
  keys of the comprehensive set, for whatever the module holds.
\<close>

theorem variants_subset_comprehensive:
  "keys (MinimalFCParameters fcm) \<subseteq> keys (ComprehensiveFCParameters fcm) \<and>
   keys (EfficientFCParameters fcm) \<subseteq> keys (ComprehensiveFCParameters fcm) \<and>
   keys (IndexBasedFCParameters fcm) \<subseteq> keys (ComprehensiveFCParameters fcm) \<and>
   keys (TimeBasedFCParameters fcm) \<subseteq> keys (ComprehensiveFCParameters fcm)"
  unfolding MinimalFCParameters_def EfficientFCParameters_def IndexBasedFCParameters_def
    TimeBasedFCParameters_def
  by (intro conjI keys_del_loop_subset)

theorem variants_subset_comprehensive_witness:
  "keys (MinimalFCParameters example_module) \<subseteq> keys (ComprehensiveFCParameters example_module) \<and>
   keys (EfficientFCParameters example_module) \<subseteq> keys (ComprehensiveFCParameters example_module) \<and>
   keys (IndexBasedFCParameters example_module) \<subseteq> keys (ComprehensiveFCParameters example_module) \<and>
   keys (TimeBasedFCParameters example_module) \<subseteq> keys (ComprehensiveFCParameters example_module)"
  using variants_subset_comprehensive [of example_module] .

text \<open>
  Claim C6. For a calculator of the module (whose names are distinct, being the keys of
  the module's \<^verbatim>\<open>__dict__\<close>), the minimal variant has it as a key exactly when the
  comprehensive set has it and its \<^verbatim>\<open>minimal\<close> attribute is true, and then with the
  value it has in the comprehensive set; a calculator whose attribute is absent or false
  is not a key of the minimal variant.
\<close>

theorem minimal_variant_filter:
  assumes "distinct (map fst fcm)" and "(name, f) \<in> set fcm"
  shows "(name \<in> keys (MinimalFCParameters fcm) \<longleftrightarrow>
            name \<in> keys (ComprehensiveFCParameters fcm) \<and> minimal f = Some True) \<and>
         map_of (MinimalFCParameters fcm) name =
           (if minimal f = Some True then map_of (ComprehensiveFCParameters fcm) name else None)"
proof -
  let ?drop = "\<lambda>name. \<exists>f. (name, f) \<in> set fcm \<and> (minimal f = None \<or> minimal f = Some False)"
  have flag: "(minimal f = None \<or> minimal f = Some False) \<longleftrightarrow> minimal f \<noteq> Some True"
    by (cases "minimal f") auto
  have drop: "?drop name \<longleftrightarrow> minimal f \<noteq> Some True"
    using registered_unique [OF assms, of "\<lambda>f. minimal f = None \<or> minimal f = Some False"] flag
    by simp
  have eq: "MinimalFCParameters fcm =
      filter (\<lambda>(name, v). \<not> ?drop name) (ComprehensiveFCParameters fcm)"
    unfolding MinimalFCParameters_def del_loop_filter ..
  have k: "name \<in> keys (MinimalFCParameters fcm) \<longleftrightarrow>
      name \<in> keys (ComprehensiveFCParameters fcm) \<and> \<not> ?drop name"
    unfolding eq keys_filter by blast
  have m: "map_of (MinimalFCParameters fcm) name =
      (if \<not> ?drop name then map_of (ComprehensiveFCParameters fcm) name else None)"
    unfolding eq by (rule map_of_filter_key)
  show ?thesis using k m drop by simp
qed

theorem minimal_variant_filter_witness:
  "distinct (map fst example_module) \<and>
   ''mean'' \<in> keys (MinimalFCParameters example_module) \<and>
   map_of (MinimalFCParameters example_module) ''mean'' = Some None \<and>
   ''quantile'' \<in> keys (ComprehensiveFCParameters example_module) \<and>
   ''quantile'' \<notin> keys (MinimalFCParameters example_module)"
proof -
  let ?mean = "the (map_of example_module ''mean'')"
  let ?quantile = "the (map_of example_module ''quantile'')"
  have d: "distinct (map fst example_module)" by code_simp
  have m: "(''mean'', ?mean) \<in> set example_module" by code_simp
  have q: "(''quantile'', ?quantile) \<in> set example_module" by code_simp
  have fm: "minimal ?mean = Some True" by code_simp
  have fq: "minimal ?quantile = None" by code_simp
  have cm: "map_of (ComprehensiveFCParameters example_module) ''mean'' = Some None" by code_simp
  have km: "''mean'' \<in> keys (ComprehensiveFCParameters example_module)" by code_simp
  have kq: "''quantile'' \<in> keys (ComprehensiveFCParameters example_module)" by code_simp
  show ?thesis
    using minimal_variant_filter [OF d m] minimal_variant_filter [OF d q] d fm fq cm km kq
    by simp
qed

text \<open>
  Claim C7. The efficient variant is the comprehensive set without the names that carry
  the \<^verbatim>\<open>high_comp_cost\<close> attribute in the module (the code asks \<^verbatim>\<open>hasattr\<close> only, and
  looks at no other attribute); the other entries stay, with their values and in their
  order.
\<close>

theorem efficient_variant_filter:
  "EfficientFCParameters fcm =
     filter (\<lambda>(name, v). \<not> (\<exists>f. (name, f) \<in> set fcm \<and> high_comp_cost f \<noteq> None))
       (ComprehensiveFCParameters fcm)"
  unfolding EfficientFCParameters_def del_loop_filter ..

theorem efficient_variant_filter_witness:
  "''sample_entropy'' \<in> keys (ComprehensiveFCParameters example_module) \<and>
   ''sample_entropy'' \<notin> keys (EfficientFCParameters example_module) \<and>
   map_of (EfficientFCParameters example_module) ''mean'' = Some None"
proof -
  have c: "''sample_entropy'' \<in> keys (ComprehensiveFCParameters example_module)" by code_simp
  have m: "map_of (ComprehensiveFCParameters example_module) ''mean'' = Some None" by code_simp
  have s: "\<exists>f. (''sample_entropy'', f) \<in> set example_module \<and> high_comp_cost f \<noteq> None"
    by (rule exI [of _ "the (map_of example_module ''sample_entropy'')"]) code_simp
  have n: "\<not> (\<exists>f. (''mean'', f) \<in> set example_module \<and> high_comp_cost f \<noteq> None)"
    by (simp add: example_module_def plain_attr_def)
  show ?thesis
    unfolding efficient_variant_filter [of example_module] keys_filter map_of_filter_key
    using c m s n by simp
qed

section \<open>Properties of from_columns\<close>

subsection \<open>The loop and its body\<close>

lemma from_columns_loop_append:
  "from_columns_loop fcm codec ign (xs @ ys) d =
     (case from_columns_loop fcm codec ign xs d of
        Inl e \<Rightarrow> Inl e
      | Inr d' \<Rightarrow> from_columns_loop fcm codec ign ys d')"
  by (induction xs arbitrary: d) (auto split: sum.splits)

lemma body_ignored:
  "col \<in> set ign \<Longrightarrow> from_columns_body fcm codec ign col d = Inr d"
  by (simp add: from_columns_body_def)

lemma map_of_None_keys: "k \<notin> keys d \<Longrightarrow> map_of d k = None"
  by (simp add: keys_def map_of_eq_None_iff)

lemma body_well_formed:
  assumes "Str s \<notin> set ign" and "split_py s = kind # feature_name # rest"
    and "hasattr_module fcm feature_name"
  shows "from_columns_body fcm codec ign (Str s) d =
     (case codec (split_py s) of
        Inl e \<Rightarrow> Inl e
      | Inr config \<Rightarrow>
         (case store_config feature_name config (entries d kind) of
            Inl e \<Rightarrow> Inl e
          | Inr fc' \<Rightarrow> Inr (AList.update kind fc' d)))"
proof (cases "kind \<in> keys d")
  case True
  then show ?thesis using assms
    unfolding from_columns_body_def entries_def Let_def by simp
next
  case False
  then have "map_of d kind = None" by (rule map_of_None_keys)
  then show ?thesis using assms False
    unfolding from_columns_body_def entries_def Let_def
    by (simp add: update_conv' split: sum.splits)
qed

lemma lookup_update:
  "lookup (AList.update kind fc' d) k n = (if k = kind then map_of fc' n else lookup d k n)"
  by (simp add: lookup_def update_conv')

lemma lookup_entries: "lookup d kind n = map_of (entries d kind) n"
  by (simp add: lookup_def entries_def split: option.splits)

lemma store_config_falsy:
  "\<not> truthy config \<Longrightarrow> store_config name config fc = Inr (AList.update name None fc)"
  by (simp add: store_config_def)

lemma store_config_other:
  "store_config name config fc = Inr fc' \<Longrightarrow> n \<noteq> name \<Longrightarrow> map_of fc' n = map_of fc n"
  by (auto simp: store_config_def update_conv' split: if_splits option.splits)

lemma store_config_truthy:
  assumes "truthy config" and "store_config name config fc = Inr fc'"
  shows "map_of fc' name =
     Some (Some ((case map_of fc name of Some (Some configs) \<Rightarrow> configs | _ \<Rightarrow> []) @ [the config]))"
  using assms by (auto simp: store_config_def update_conv' split: option.splits)

lemma split_py_not_Nil: "split_py s \<noteq> []"
  by (induction s rule: split_py.induct) (auto simp: cons_first_def split: list.splits)

lemma split_py_plain:
  "plain_field k \<Longrightarrow> split_py (k @ CHR ''_'' # CHR ''_'' # r) = k # split_py r"
proof (induction k rule: split_py.induct)
  case 1
  then show ?case by simp
next
  case (2 c)
  then show ?case by (simp add: plain_field_def cons_first_def)
next
  case (3 c d rest)
  from "3.prems" have nd: "\<not> (c = CHR ''_'' \<and> d = CHR ''_'')" and p: "plain_field (d # rest)"
    by (auto simp: plain_field_def split: if_splits)
  have "split_py ((c # d # rest) @ CHR ''_'' # CHR ''_'' # r) =
      cons_first c (split_py ((d # rest) @ CHR ''_'' # CHR ''_'' # r))"
    using nd by auto
  also have "\<dots> = (c # d # rest) # split_py r"
    using "3.IH" nd p by (auto simp: cons_first_def)
  finally show ?case .
qed

lemma split_py_no_dunder: "\<not> has_dunder a \<Longrightarrow> split_py a = [a]"
  by (induction a rule: split_py.induct) (auto simp: cons_first_def)

lemma from_columns_abort:
  "from_columns fcm codec pre ci = Inl e \<Longrightarrow> from_columns fcm codec (pre @ post) ci = Inl e"
  by (simp add: from_columns_def from_columns_loop_append)

lemma from_columns_snoc:
  "from_columns fcm codec pre ci = Inr d \<Longrightarrow>
   from_columns fcm codec (pre @ col # post) ci =
     (case from_columns_body fcm codec (ignore_list ci) col d of
        Inl e \<Rightarrow> Inl e
      | Inr d' \<Rightarrow> from_columns_loop fcm codec (ignore_list ci) post d')"
  by (simp add: from_columns_def from_columns_loop_append)

subsection \<open>Ignored entries\<close>

text \<open>
  Claim C10. The membership test in \<^verbatim>\<open>columns_to_ignore\<close> comes before the type check: an
  entry of the ignore list, string or not, is skipped, so the call gives what it gives on
  the list without that entry, and no type error is raised for it. In particular
  \<^verbatim>\<open>from_columns([42], columns_to_ignore=[42])\<close> is the empty dictionary.
\<close>

theorem ignored_entry_skipped:
  assumes "col \<in> set (ignore_list ci)"
  shows "from_columns fcm codec (pre @ col # post) ci = from_columns fcm codec (pre @ post) ci"
  using assms
  by (simp add: from_columns_def from_columns_loop_append body_ignored split: sum.splits)

theorem ignored_entry_skipped_witness:
  "from_columns example_module (get_config_from_string coerce_literal) [NonStr 42] (Some [NonStr 42])
     = Inr [] \<and>
   from_columns example_module (get_config_from_string coerce_literal) [NonStr 42] None
     = Inl (TypeError (NonStr 42))"
proof -
  have "NonStr 42 \<in> set (ignore_list (Some [NonStr 42]))" by (simp add: ignore_list_def)
  from ignored_entry_skipped [OF this, of example_module "get_config_from_string coerce_literal" "[]" "[]"]
  show ?thesis
    by (simp add: from_columns_def ignore_list_def from_columns_body_def)
qed

subsection \<open>Errors\<close>

text \<open>
  Claim C4. When the entries before it have been processed without error, an entry that
  is not ignored and is not a string raises a type error, a string that splits into a
  single field raises a value error, and a string whose second field is not an attribute
  of the calculator module raises a value error. The error is the result of the whole
  call, whatever entries follow, and no dictionary is returned with it.
\<close>

theorem first_offending_entry_aborts:
  assumes "from_columns fcm codec pre ci = Inr d" and "col \<notin> set (ignore_list ci)"
  shows "(\<forall>n. col = NonStr n \<longrightarrow>
            from_columns fcm codec (pre @ col # post) ci = Inl (TypeError col)) \<and>
         (\<forall>s field. col = Str s \<and> split_py s = [field] \<longrightarrow>
            from_columns fcm codec (pre @ col # post) ci =
              Inl (ValueError (''Splitting of columnname '' @ s @ '' resulted in only one part.''))) \<and>
         (\<forall>s kind feature_name rest.
            col = Str s \<and> split_py s = kind # feature_name # rest \<and>
            \<not> hasattr_module fcm feature_name \<longrightarrow>
            from_columns fcm codec (pre @ col # post) ci =
              Inl (ValueError (''Unknown feature name '' @ feature_name)))"
  unfolding from_columns_snoc [OF assms(1)] using assms(2)
  by (auto simp: from_columns_body_def Let_def)

theorem first_offending_entry_aborts_witness:
  "from_columns example_module (get_config_from_string coerce_literal)
     [Str ''kind__mean'', NonStr 42, Str ''a''] None = Inl (TypeError (NonStr 42)) \<and>
   from_columns example_module (get_config_from_string coerce_literal)
     [Str ''kind__mean'', Str ''a'', NonStr 42] None =
       Inl (ValueError ''Splitting of columnname a resulted in only one part.'') \<and>
   from_columns example_module (get_config_from_string coerce_literal)
     [Str ''kind__mean'', Str ''kind__nonexistent_calculator'', Str ''a''] None =
       Inl (ValueError ''Unknown feature name nonexistent_calculator'')"
proof -
  let ?codec = "get_config_from_string coerce_literal"
  have pre: "from_columns example_module ?codec [Str ''kind__mean''] None
      = Inr [(''kind'', [(''mean'', None)])]"
    by code_simp
  have ni: "\<And>col. col \<notin> set (ignore_list None)" by (simp add: ignore_list_def)
  have s1: "split_py ''a'' = [''a'']" by code_simp
  have s2: "split_py ''kind__nonexistent_calculator'' = [''kind'', ''nonexistent_calculator'']"
    by code_simp
  have h: "\<not> hasattr_module example_module ''nonexistent_calculator''" by code_simp
  show ?thesis
    using first_offending_entry_aborts [OF pre ni, of "NonStr 42" "[Str ''a'']"]
      first_offending_entry_aborts [OF pre ni, of "Str ''a''" "[NonStr 42]"]
      first_offending_entry_aborts [OF pre ni, of "Str ''kind__nonexistent_calculator''" "[Str ''a'']"]
      s1 s2 h
    by simp
qed

subsection \<open>Replacement by a parameterless column\<close>

text \<open>
  Claim C3. A column whose config is falsy sets the entry of its (kind, calculator) pair
  to \<^verbatim>\<open>None\<close>, whatever the dictionary built by the earlier columns holds for the pair: a
  list of parameter dicts accumulated before is discarded, without an error.
\<close>

theorem parameterless_column_replaces:
  assumes "from_columns fcm codec pre ci = Inr d" and "Str s \<notin> set (ignore_list ci)"
    and "split_py s = kind # feature_name # rest" and "hasattr_module fcm feature_name"
    and "codec (split_py s) = Inr config" and "\<not> truthy config"
  shows "from_columns fcm codec (pre @ [Str s]) ci =
           Inr (AList.update kind (AList.update feature_name None (entries d kind)) d) \<and>
         lookup (AList.update kind (AList.update feature_name None (entries d kind)) d)
           kind feature_name = Some None"
  unfolding from_columns_snoc [OF assms(1)] body_well_formed [OF assms(2,3,4)]
  using assms(5,6)
  by (simp add: store_config_falsy lookup_update update_conv')

theorem parameterless_column_replaces_witness:
  "from_columns example_module (get_config_from_string coerce_literal)
     [Str ''k__quantile__q_0.1'', Str ''k__quantile__q_0.2''] None =
       Inr [(''k'', [(''quantile'', Some [[(''q'', PFloat (FDec 1 1))], [(''q'', PFloat (FDec 2 1))]])])] \<and>
   from_columns example_module (get_config_from_string coerce_literal)
     [Str ''k__quantile__q_0.1'', Str ''k__quantile__q_0.2'', Str ''k__quantile''] None =
       Inr [(''k'', [(''quantile'', None)])]"
proof -
  let ?codec = "get_config_from_string coerce_literal"
  let ?d = "[(''k'', [(''quantile'', Some [[(''q'', PFloat (FDec 1 1))], [(''q'', PFloat (FDec 2 1))]])])]"
  have pre: "from_columns example_module ?codec
      [Str ''k__quantile__q_0.1'', Str ''k__quantile__q_0.2''] None = Inr ?d"
    by code_simp
  have ni: "Str ''k__quantile'' \<notin> set (ignore_list None)" by (simp add: ignore_list_def)
  have sp: "split_py ''k__quantile'' = ''k'' # ''quantile'' # []" by code_simp
  have h: "hasattr_module example_module ''quantile''" by code_simp
  have c: "?codec (split_py ''k__quantile'') = Inr None" by code_simp
  have t: "\<not> truthy None" by (simp add: truthy_def)
  show ?thesis
    using parameterless_column_replaces [OF pre ni sp h c t] pre
    by (simp add: entries_def)
qed

subsection \<open>Accumulation of parameter dicts\<close>

lemma take2_fields: "take 2 xs = [a, b] \<Longrightarrow> \<exists>rest. xs = a # b # rest"
  by (cases xs; cases "tl xs") auto

lemma body_other_pair:
  assumes "from_columns_body fcm codec ign col d = Inr d'"
    and "\<not> of_pair ign kind name col"
  shows "lookup d' kind name = lookup d kind name"
proof (cases "col \<in> set ign")
  case True
  then show ?thesis using assms(1) by (simp add: body_ignored)
next
  case False
  show ?thesis
  proof (cases col)
    case (NonStr n)
    then show ?thesis using assms(1) False by (simp add: from_columns_body_def)
  next
    case (Str s)
    show ?thesis
    proof (cases "split_py s")
      case Nil
      then show ?thesis using assms(1) False Str by (simp add: from_columns_body_def)
    next
      case (Cons k ps)
      show ?thesis
      proof (cases ps)
        case Nil
        then show ?thesis using assms(1) False Str Cons by (simp add: from_columns_body_def)
      next
        case (Cons n rest)
        have sp: "split_py s = k # n # rest" using \<open>split_py s = k # ps\<close> Cons by simp
        have ni: "Str s \<notin> set ign" using False Str by simp
        have h: "hasattr_module fcm n"
          using assms(1) ni sp Str by (auto simp: from_columns_body_def Let_def split: if_splits)
        have diff: "k \<noteq> kind \<or> n \<noteq> name"
          using assms(2) ni sp Str by (auto simp: of_pair_def)
        from assms(1) obtain config fc' where
          st: "store_config n config (entries d k) = Inr fc'" and d': "d' = AList.update k fc' d"
          unfolding Str body_well_formed [OF ni sp h] by (auto split: sum.splits)
        show ?thesis
        proof (cases "k = kind")
          case True
          then have "n \<noteq> name" using diff by simp
          then have "map_of fc' name = map_of (entries d k) name"
            using store_config_other [OF st] by simp
          then show ?thesis using True
            unfolding d' lookup_update by (simp add: lookup_entries)
        next
          case False
          then show ?thesis by (simp add: d' lookup_update)
        qed
      qed
    qed
  qed
qed

lemma body_same_pair:
  assumes "from_columns_body fcm codec ign col d = Inr d'"
    and "of_pair ign kind name col" and "decoded codec col \<noteq> []"
  shows "lookup d' kind name =
     Some (Some ((case lookup d kind name of Some (Some configs) \<Rightarrow> configs | _ \<Rightarrow> [])
                  @ [decoded codec col]))"
proof -
  from assms(2) obtain s where Str: "col = Str s" and ni: "Str s \<notin> set ign"
    and t: "take 2 (split_py s) = [kind, name]"
    by (cases col) (auto simp: of_pair_def)
  from take2_fields [OF t] obtain rest where sp: "split_py s = kind # name # rest" ..
  have h: "hasattr_module fcm name"
    using assms(1) ni sp Str by (auto simp: from_columns_body_def Let_def split: if_splits)
  from assms(1) obtain config fc' where c: "codec (split_py s) = Inr config"
    and st: "store_config name config (entries d kind) = Inr fc'" and d': "d' = AList.update kind fc' d"
    unfolding Str body_well_formed [OF ni sp h] by (auto split: sum.splits)
  from assms(3) c have tr: "truthy config" and dc: "decoded codec col = the config"
    by (auto simp: decoded_def Str truthy_def split: option.splits)
  show ?thesis
    using store_config_truthy [OF tr st]
    unfolding d' lookup_update by (simp add: lookup_entries dc)
qed

lemma loop_accumulates:
  assumes "from_columns_loop fcm codec ign cols d = Inr d'"
    and "\<forall>col\<in>set cols. of_pair ign kind name col \<longrightarrow> decoded codec col \<noteq> []"
  shows "lookup d' kind name =
     (let configs = map (decoded codec) (filter (of_pair ign kind name) cols)
      in if configs = [] then lookup d kind name
         else Some (Some ((case lookup d kind name of Some (Some old) \<Rightarrow> old | _ \<Rightarrow> []) @ configs)))"
  using assms
proof (induction cols arbitrary: d)
  case Nil
  then show ?case by simp
next
  case (Cons col cols)
  from Cons.prems(1) obtain d1 where b: "from_columns_body fcm codec ign col d = Inr d1"
    and l: "from_columns_loop fcm codec ign cols d1 = Inr d'"
    by (auto split: sum.splits)
  have rest: "\<forall>col\<in>set cols. of_pair ign kind name col \<longrightarrow> decoded codec col \<noteq> []"
    using Cons.prems(2) by simp
  note IH = Cons.IH [OF l rest]
  show ?case
  proof (cases "of_pair ign kind name col")
    case True
    then have "decoded codec col \<noteq> []" using Cons.prems(2) by simp
    from body_same_pair [OF b True this] show ?thesis
      using IH True by (simp add: Let_def)
  next
    case False
    from body_other_pair [OF b False] show ?thesis
      using IH False by (simp add: Let_def)
  qed
qed

lemma store_config_returns:
  assumes "truthy config" and "map_of fc name \<noteq> Some None"
  shows "\<exists>fc'. store_config name config fc = Inr fc' \<and> (\<forall>n. map_of fc' n \<noteq> Some None \<or> map_of fc n = Some None)"
  using assms by (auto simp: store_config_def update_conv' split: option.splits)

lemma parameterized_columns_return:
  assumes "\<forall>col\<in>set cols. col \<notin> set ign \<longrightarrow>
      (\<exists>s kind name rest. col = Str s \<and> split_py s = kind # name # rest \<and> hasattr_module fcm name)
      \<and> decoded codec col \<noteq> []"
    and "\<forall>kind name. lookup d kind name \<noteq> Some None"
  shows "\<exists>d'. from_columns_loop fcm codec ign cols d = Inr d' \<and>
      (\<forall>kind name. lookup d' kind name \<noteq> Some None)"
  using assms
proof (induction cols arbitrary: d)
  case Nil
  then show ?case by simp
next
  case (Cons col cols)
  have "\<exists>d1. from_columns_body fcm codec ign col d = Inr d1 \<and>
      (\<forall>kind name. lookup d1 kind name \<noteq> Some None)"
  proof (cases "col \<in> set ign")
    case True
    then show ?thesis using Cons.prems(2) by (simp add: body_ignored)
  next
    case False
    with Cons.prems(1) obtain s kind name rest where Str: "col = Str s"
      and sp: "split_py s = kind # name # rest" and h: "hasattr_module fcm name"
      and dc: "decoded codec col \<noteq> []"
      by auto
    have ni: "Str s \<notin> set ign" using False Str by simp
    from dc obtain config where c: "codec (split_py s) = Inr config" and tr: "truthy config"
      by (auto simp: decoded_def Str truthy_def split: sum.splits option.splits)
    have "map_of (entries d kind) name \<noteq> Some None"
      using Cons.prems(2) by (simp add: lookup_entries)
    from store_config_returns [OF tr this] obtain fc' where
      st: "store_config name config (entries d kind) = Inr fc'"
      and nn: "\<forall>n. map_of fc' n \<noteq> Some None \<or> map_of (entries d kind) n = Some None"
      by blast
    have b: "from_columns_body fcm codec ign col d = Inr (AList.update kind fc' d)"
      unfolding Str body_well_formed [OF ni sp h] by (simp add: c st)
    have "\<forall>k n. lookup (AList.update kind fc' d) k n \<noteq> Some None"
      unfolding lookup_update using nn Cons.prems(2) by (auto simp: lookup_entries)
    with b show ?thesis by blast
  qed
  then obtain d1 where b: "from_columns_body fcm codec ign col d = Inr d1"
    and n1: "\<forall>kind name. lookup d1 kind name \<noteq> Some None" by blast
  have "\<forall>col\<in>set cols. col \<notin> set ign \<longrightarrow>
      (\<exists>s kind name rest. col = Str s \<and> split_py s = kind # name # rest \<and> hasattr_module fcm name)
      \<and> decoded codec col \<noteq> []"
    using Cons.prems(1) by simp
  from Cons.IH [OF this n1] show ?case by (simp add: b)
qed

text \<open>
  Claim C2, as amended. When \<^verbatim>\<open>from_columns\<close> returns and every column of a
  (kind, calculator) pair in the input decodes to a non-empty parameter dict, the entry of
  the pair is the list of these dicts in the order of the columns, repeated dicts
  included, whatever columns of other pairs or ignored entries stand between them. By
  \<open>parameterized_columns_return\<close> the call does return when every column that is not
  ignored is well formed and has parameters.
\<close>

theorem parameterized_columns_accumulate:
  assumes "from_columns fcm codec cols ci = Inr d"
    and "\<forall>col\<in>set cols. of_pair (ignore_list ci) kind name col \<longrightarrow> decoded codec col \<noteq> []"
    and "filter (of_pair (ignore_list ci) kind name) cols \<noteq> []"
  shows "lookup d kind name =
     Some (Some (map (decoded codec) (filter (of_pair (ignore_list ci) kind name) cols)))"
  using loop_accumulates [OF assms(1) [unfolded from_columns_def] assms(2)] assms(3)
  by (simp add: Let_def lookup_def)

theorem parameterized_columns_accumulate_witness:
  "from_columns example_module (get_config_from_string coerce_literal)
     [Str ''k__quantile__q_0.2'', Str ''k__mean'', Str ''k__quantile__q_0.1'', Str ''id'',
      Str ''k__quantile__q_0.2''] (Some [Str ''id''])
     = Inr [(''k'', [(''quantile'', Some [[(''q'', PFloat (FDec 2 1))], [(''q'', PFloat (FDec 1 1))],
                                          [(''q'', PFloat (FDec 2 1))]]),
                    (''mean'', None)])] \<and>
   lookup [(''k'', [(''quantile'', Some [[(''q'', PFloat (FDec 2 1))], [(''q'', PFloat (FDec 1 1))],
                                          [(''q'', PFloat (FDec 2 1))]]),
                    (''mean'', None)])] ''k'' ''quantile''
     = Some (Some [[(''q'', PFloat (FDec 2 1))], [(''q'', PFloat (FDec 1 1))], [(''q'', PFloat (FDec 2 1))]]) \<and>
   from_columns example_module (get_config_from_string coerce_literal)
     [Str ''k__quantile__q_0.1'', Str ''k__quantile__q_0.2''] None
     = Inr [(''k'', [(''quantile'', Some [[(''q'', PFloat (FDec 1 1))], [(''q'', PFloat (FDec 2 1))]])])]"
proof -
  let ?codec = "get_config_from_string coerce_literal"
  let ?cols = "[Str ''k__quantile__q_0.2'', Str ''k__mean'', Str ''k__quantile__q_0.1'', Str ''id'',
      Str ''k__quantile__q_0.2'']"
  let ?d = "[(''k'', [(''quantile'', Some [[(''q'', PFloat (FDec 2 1))], [(''q'', PFloat (FDec 1 1))],
                                          [(''q'', PFloat (FDec 2 1))]]),
                    (''mean'', None)])]"
  have r: "from_columns example_module ?codec ?cols (Some [Str ''id'']) = Inr ?d"
    by code_simp
  have p: "\<forall>col\<in>set ?cols. of_pair (ignore_list (Some [Str ''id''])) ''k'' ''quantile'' col \<longrightarrow>
      decoded ?codec col \<noteq> []"
    by code_simp
  have f: "filter (of_pair (ignore_list (Some [Str ''id''])) ''k'' ''quantile'') ?cols \<noteq> []"
    by code_simp
  have m: "map (decoded ?codec) (filter (of_pair (ignore_list (Some [Str ''id''])) ''k'' ''quantile'') ?cols)
      = [[(''q'', PFloat (FDec 2 1))], [(''q'', PFloat (FDec 1 1))], [(''q'', PFloat (FDec 2 1))]]"
    by code_simp
  have e: "from_columns example_module ?codec
      [Str ''k__quantile__q_0.1'', Str ''k__quantile__q_0.2''] None
      = Inr [(''k'', [(''quantile'', Some [[(''q'', PFloat (FDec 1 1))], [(''q'', PFloat (FDec 2 1))]])])]"
    by code_simp
  show ?thesis
    using parameterized_columns_accumulate [OF r p f] r e unfolding m by simp
qed

text \<open>
  Without the condition on the columns of the pair the claim fails: two columns with
  parameters followed by the parameterless column of the same pair leave \<^verbatim>\<open>None\<close>, not
  the list of the two dicts.
\<close>

theorem parameterized_columns_counterexample:
  "decoded (get_config_from_string coerce_literal) (Str ''k__number_peaks__n_1'') = [(''n'', PInt 1)] \<and>
   decoded (get_config_from_string coerce_literal) (Str ''k__number_peaks__n_3'') = [(''n'', PInt 3)] \<and>
   from_columns example_module (get_config_from_string coerce_literal)
     [Str ''k__number_peaks__n_1'', Str ''k__number_peaks__n_3'', Str ''k__number_peaks''] None
     = Inr [(''k'', [(''number_peaks'', None)])]"
  by code_simp

subsection \<open>Validation of the calculator name\<close>

text \<open>
  Claim C9, as amended. The name check is \<^verbatim>\<open>hasattr\<close> on the module, so an attribute that
  is no feature calculator passes it. For a kind that is a plain field, an attribute name
  without two underscores in a row, and a codec that returns a falsy config on the two
  fields, \<^verbatim>\<open>from_columns\<close> on the single column \<^verbatim>\<open>kind__a\<close> returns the dictionary that maps
  the kind to \<^verbatim>\<open>{a: None}\<close>.
\<close>

theorem module_attribute_accepted:
  assumes "hasattr_module fcm a" and "\<not> has_dunder a" and "plain_field kind"
    and "codec [kind, a] = Inr config" and "\<not> truthy config"
  shows "from_columns fcm codec [Str (kind @ ''__'' @ a)] None = Inr [(kind, [(a, None)])]"
proof -
  have sp: "split_py (kind @ ''__'' @ a) = kind # a # []"
    using assms(2,3) by (simp add: split_py_plain split_py_no_dunder)
  have ni: "Str (kind @ ''__'' @ a) \<notin> set (ignore_list None)"
    by (simp add: ignore_list_def)
  have e: "from_columns fcm codec [] None = Inr []"
    by (simp add: from_columns_def)
  have "from_columns fcm codec ([] @ [Str (kind @ ''__'' @ a)]) None =
      Inr (AList.update kind (AList.update a None (entries [] kind)) [])"
    unfolding from_columns_snoc [OF e] body_well_formed [OF ni sp assms(1)]
    using assms(4,5) sp by (simp add: store_config_falsy)
  then show ?thesis by (simp add: entries_def)
qed

theorem module_attribute_accepted_witness:
  "from_columns example_module (get_config_from_string coerce_literal) [Str ''k__np''] None
     = Inr [(''k'', [(''np'', None)])]"
proof -
  have h: "hasattr_module example_module ''np''" by code_simp
  have a: "\<not> has_dunder ''np''" by code_simp
  have k: "plain_field ''k''" by code_simp
  have c: "get_config_from_string coerce_literal [''k'', ''np''] = Inr None" by code_simp
  have t: "\<not> truthy None" by (simp add: truthy_def)
  show ?thesis
    using module_attribute_accepted
      [of example_module "''np''" "''k''" "get_config_from_string coerce_literal" None, OF h a k c t]
    by simp
qed

text \<open>
  The claim as stated, for any module attribute, fails for the attributes every module
  has: \<^verbatim>\<open>__name__\<close> is an attribute, but the column \<^verbatim>\<open>k____name__\<close> splits into the
  fields \<^verbatim>\<open>k\<close>, the empty string, \<^verbatim>\<open>name\<close> and the empty string, and the empty calculator
  name is rejected.
\<close>

theorem module_attribute_counterexample:
  "hasattr_module example_module ''__name__'' \<and>
   from_columns example_module (get_config_from_string coerce_literal)
     [Str (''k__'' @ ''__name__'')] None = Inl (ValueError ''Unknown feature name '')"
  by code_simp

subsection \<open>Round trip through the naming convention\<close>



























text \<open>
  The value conditions of \<open>param_ok\<close> hold of the coercion and the rendering above for
  every boolean and every natural number.
\<close>

lemma digit_of_digit_char: "digit_of (digit_char d) = Some (d mod 10)"
proof -
  have "k < 10 \<Longrightarrow> digit_of (''0123456789'' ! k) = Some k" for k
    by (auto simp: digit_of_def less_Suc_eq numeral_eq_Suc)
  then show ?thesis by (simp add: digit_char_def)
qed

lemma digit_char_digit: "digit_char d \<in> set ''0123456789''"
  unfolding digit_char_def by (rule nth_mem) simp

lemma str_nat_digits: "set (str_nat n) \<subseteq> set ''0123456789''"
proof (induction n rule: str_nat.induct)
  case (1 n)
  show ?case
  proof (cases "n < 10")
    case True
    then show ?thesis using digit_char_digit [of n] by (subst str_nat.simps) simp
  next
    case False
    then show ?thesis using 1 digit_char_digit [of "n mod 10"] by (subst str_nat.simps) simp
  qed
qed

lemma str_nat_not_Nil: "str_nat n \<noteq> []"
  by (subst str_nat.simps) simp

lemma digits_value_append:
  "digits_value (xs @ ys) a =
     (case digits_value xs a of None \<Rightarrow> None | Some b \<Rightarrow> digits_value ys b)"
  by (induction xs arbitrary: a) (auto split: option.splits)

lemma digits_value_str_nat: "digits_value (str_nat n) 0 = Some n"
proof (induction n rule: str_nat.induct)
  case (1 n)
  show ?case
  proof (cases "n < 10")
    case True
    then show ?thesis by (subst str_nat.simps) (simp add: digit_of_digit_char)
  next
    case False
    then show ?thesis using 1
      by (subst str_nat.simps) (simp add: digits_value_append digit_of_digit_char)
  qed
qed

lemma coerce_literal_str_nat: "coerce_literal (str_nat n) = Inr (PInt (int n))"
proof -
  have d: "set (str_nat n) \<subseteq> set ''0123456789''" by (rule str_nat_digits)
  then have dot: "\<forall>c\<in>set (str_nat n). c \<noteq> CHR ''.''" by auto
  have t: "takeWhile (\<lambda>c. c \<noteq> CHR ''.'') (str_nat n) = str_nat n"
    using dot by (simp add: takeWhile_eq_all_conv)
  have dr: "dropWhile (\<lambda>c. c \<noteq> CHR ''.'') (str_nat n) = []"
    using dot by (simp add: dropWhile_eq_Nil_conv)
  have nt: "str_nat n \<noteq> ''True''" "str_nat n \<noteq> ''False''"
    using d by auto
  show ?thesis
    by (simp add: coerce_literal_def t dr nt Let_def digits_value_str_nat str_nat_not_Nil)
qed

lemma str_py_coerced_back:
  assumes "plain_field name" and "v = PBool b \<or> v = PInt (int n)"
  shows "param_ok coerce_literal str_py (name, v)"
proof (cases "v = PBool b")
  case True
  then show ?thesis using assms(1)
    by (cases b) (simp_all add: param_ok_def str_py_def coerce_literal_def)
next
  case False
  then have v: "v = PInt (int n)" using assms(2) by simp
  have "CHR ''_'' \<notin> set (str_nat n)" using str_nat_digits [of n] by auto
  then show ?thesis using assms(1)
    by (simp add: v param_ok_def str_py_def coerce_literal_str_nat str_nat_not_Nil)
qed




end
